theory Spec2Isabelle
  imports
    Complex_Main
    "HOL-Library.Char_ord"
    "HOL-Library.List_Lexorder"
    "HOL-Library.Product_Lexorder"
    "HOL-Library.Sublist"
    "HOL-Library.Extended_Nat"
    "HOL-Library.Multiset"
begin

section \<open>Moves and payoffs\<close>

text \<open>
  The source represents a move by one of the strings \<^verbatim>\<open>'C'\<close> (COOPERATE) and
  \<^verbatim>\<open>'D'\<close> (DEFECT). Every move the program produces is one of the two (the built-in
  strategies return the constants or an element of a history, the rule dialog offers the
  two values only), so a move is a two-valued datatype.
\<close>

datatype move = C | D

text \<open>\<^verbatim>\<open>COOPERATE if m == DEFECT else DEFECT\<close>, the inversion that noise applies.\<close>

definition invert :: "move \<Rightarrow> move" where
  "invert m = (if m = D then C else D)"

text \<open>The character a move contributes to \<^verbatim>\<open>"".join(history)\<close>.\<close>

definition move_char :: "move \<Rightarrow> char" where
  "move_char m = (if m = C then CHR ''C'' else CHR ''D'')"

text \<open>The table \<^verbatim>\<open>PAYOFFS\<close> and the names \<^verbatim>\<open>R, S, T, P = 3, 0, 5, 1\<close>.\<close>

fun PAYOFFS :: "move \<times> move \<Rightarrow> int \<times> int" where
  "PAYOFFS (C, C) = (3, 3)"
| "PAYOFFS (C, D) = (0, 5)"
| "PAYOFFS (D, C) = (5, 0)"
| "PAYOFFS (D, D) = (1, 1)"

definition R_payoff :: int where "R_payoff = 3"
definition S_payoff :: int where "S_payoff = 0"
definition T_payoff :: int where "T_payoff = 5"
definition P_payoff :: int where "P_payoff = 1"

section \<open>The random source\<close>

text \<open>
  The program draws from Python's global generator: \<^verbatim>\<open>random.random()\<close> (a float in
  the half-open unit interval) and \<^verbatim>\<open>random.choice\<close>. The generator is modelled as
  a state holding the two sequences of future outcomes and how many of each have been
  consumed; theorems quantify over the state, so they hold for whatever the generator
  yields. Floats are compared only (\<^verbatim>\<open>random.random() < p\<close>), which is exact, so a
  draw and a probability are reals.
\<close>

record rng =
  floats :: "nat \<Rightarrow> real"
  fpos :: nat
  coins :: "nat \<Rightarrow> bool"
  cpos :: nat

definition random :: "rng \<Rightarrow> real \<times> rng" where
  "random g = (floats g (fpos g), g\<lparr>fpos := Suc (fpos g)\<rparr>)"

text \<open>\<^verbatim>\<open>random.choice([COOPERATE, DEFECT])\<close>: the coin says whether the first element is taken.\<close>

definition random_choice :: "rng \<Rightarrow> move \<times> rng" where
  "random_choice g = ((if coins g (cpos g) then C else D), g\<lparr>cpos := Suc (cpos g)\<rparr>)"

text \<open>What \<^verbatim>\<open>random.random()\<close> promises: every draw lies in \<open>[0, 1)\<close>.\<close>

definition unit_draws :: "rng \<Rightarrow> bool" where
  "unit_draws g = (\<forall>i. 0 \<le> floats g i \<and> floats g i < 1)"

section \<open>Built-in strategies\<close>

datatype py_error = IndexError | KeyError

text \<open>
  A decision function takes its own history, the opponent's history, the round number and
  the forgiveness probability; it may draw from the random source and it may raise.
\<close>

type_synonym strategy =
  "move list \<Rightarrow> move list \<Rightarrow> int \<Rightarrow> real \<Rightarrow> rng \<Rightarrow> py_error + (move \<times> rng)"

definition always_cooperate :: strategy where
  "always_cooperate my_history opponent_history round_number forgiveness_prob g = Inr (C, g)"

definition always_defect :: strategy where
  "always_defect my_history opponent_history round_number forgiveness_prob g = Inr (D, g)"

text \<open>
  Python's \<^verbatim>\<open>and\<close> short-circuits: the draw is made only when the opponent's last
  move is a defection.
\<close>

definition tit_for_tat :: strategy where
  "tit_for_tat my_history opponent_history round_number forgiveness_prob g =
     (if opponent_history = [] then Inr (C, g)
      else if last opponent_history = D then
        (let (d, g') = random g in
         if d < forgiveness_prob then Inr (C, g') else Inr (last opponent_history, g'))
      else Inr (last opponent_history, g))"

definition grudger :: strategy where
  "grudger my_history opponent_history round_number forgiveness_prob g =
     (if D \<in> set opponent_history then
        (if last opponent_history = D then
           (let (d, g') = random g in
            if d < forgiveness_prob then Inr (C, g') else Inr (D, g'))
         else Inr (D, g))
      else Inr (C, g))"

definition random_strategy :: strategy where
  "random_strategy my_history opponent_history round_number forgiveness_prob g =
     Inr (random_choice g)"

definition tit_for_two_tats :: strategy where
  "tit_for_two_tats my_history opponent_history round_number forgiveness_prob g =
     (if length opponent_history < 2 then Inr (C, g)
      else if last opponent_history = D
              \<and> opponent_history ! (length opponent_history - 2) = D then
        (let (d, g') = random g in
         if d < forgiveness_prob then Inr (C, g') else Inr (D, g'))
      else Inr (C, g))"

definition suspicious_tit_for_tat :: strategy where
  "suspicious_tit_for_tat my_history opponent_history round_number forgiveness_prob g =
     (if opponent_history = [] then Inr (D, g)
      else if last opponent_history = D then
        (let (d, g') = random g in
         if d < forgiveness_prob then Inr (C, g') else Inr (last opponent_history, g'))
      else Inr (last opponent_history, g))"

text \<open>The float that the literal \<^verbatim>\<open>0.10\<close> denotes (the double nearest to one tenth).\<close>

definition float_0_10 :: real where
  "float_0_10 = 3602879701896397 / 36028797018963968"

definition generous_tit_for_tat_10 :: strategy where
  "generous_tit_for_tat_10 my_history opponent_history round_number forgiveness_prob g =
     (if opponent_history = [] then Inr (C, g)
      else
        (let base_move = last opponent_history in
         if base_move = D then
           (let (d1, g1) = random g in
            if d1 < float_0_10 then Inr (C, g1)
            else
              (let (d2, g2) = random g1 in
               if d2 < forgiveness_prob then Inr (C, g2) else Inr (base_move, g2)))
         else Inr (base_move, g)))"

text \<open>
  \<^verbatim>\<open>my_history[-1]\<close> raises IndexError on an empty history, which happens when the
  function is called with a non-zero round number before any round was recorded.
\<close>

definition pavlov :: strategy where
  "pavlov my_history opponent_history round_number forgiveness_prob g =
     (if round_number = 0 then Inr (C, g)
      else if my_history = [] then Inl IndexError
      else if opponent_history = [] then Inl IndexError
      else
        (let last_my_move = last my_history;
             last_opp_move = last opponent_history;
             last_payoff = fst (PAYOFFS (last_my_move, last_opp_move))
         in
         if last_payoff = R_payoff \<or> last_payoff = P_payoff then
           (if last_payoff = P_payoff then
              (let (d, g') = random g in
               if d < forgiveness_prob then Inr (C, g') else Inr (last_my_move, g'))
            else Inr (last_my_move, g))
         else Inr ((if last_my_move = C then D else C), g)))"

definition prober :: strategy where
  "prober my_history opponent_history round_number forgiveness_prob g =
     (if round_number = 0 then Inr (D, g)
      else if round_number = 1 then Inr (C, g)
      else if round_number = 2 then Inr (C, g)
      else if length opponent_history \<ge> 3 then
        (if opponent_history ! 1 = C \<and> opponent_history ! 2 = C then
           (if opponent_history = [] then Inr (C, g)
            else if last opponent_history = D then
              (let (d, g') = random g in
               if d < forgiveness_prob then Inr (C, g') else Inr (last opponent_history, g'))
            else Inr (last opponent_history, g))
         else Inr (D, g))
      else Inr (D, g))"

definition majority :: strategy where
  "majority my_history opponent_history round_number forgiveness_prob g =
     (if opponent_history = [] then Inr (C, g)
      else
        (let coop_count = count_list opponent_history C;
             defect_count = length opponent_history - coop_count
         in
         if coop_count > defect_count then Inr (C, g)
         else if defect_count > coop_count then
           (let (d, g') = random g in
            if d < forgiveness_prob then Inr (C, g') else Inr (D, g'))
         else Inr (C, g)))"

section \<open>Custom rule sets\<close>

text \<open>
  A rule set is the dictionary \<^verbatim>\<open>rules\<close>: every key is optional, also
  \<^verbatim>\<open>'default'\<close> and the two keys of \<^verbatim>\<open>rules['opp_last_move']\<close>.
\<close>

record opp_last_move_rule =
  on_C :: "move option"
  on_D :: "move option"

record threshold_rule =
  rule_value :: int
  rule_move :: move

record rule_set =
  default_move :: "move option"
  opp_last_move :: "opp_last_move_rule option"
  opp_coop_lt :: "threshold_rule option"
  round_gt :: "threshold_rule option"

text \<open>
  The closure \<^verbatim>\<open>custom_strategy_logic\<close> that \<^verbatim>\<open>create_custom_strategy_function\<close>
  returns. The float expression \<^verbatim>\<open>(coop_count / total_moves) * 100\<close> is the parameter
  \<open>pct\<close>, applied to the two counts, so that no result depends on how floating-point
  division rounds. The outer \<^verbatim>\<open>if\<close>/\<^verbatim>\<open>elif\<close>/\<^verbatim>\<open>elif\<close> chain is kept as it is
  written: a later rule is looked at only when the guard of every earlier one is false.
\<close>

definition custom_strategy_logic :: "(nat \<Rightarrow> nat \<Rightarrow> real) \<Rightarrow> rule_set \<Rightarrow> strategy" where
  "custom_strategy_logic pct rules my_history opponent_history round_number forgiveness_prob g =
     (let default = (case default_move rules of Some m \<Rightarrow> m | None \<Rightarrow> C);
          (move, rule_triggered_defection) =
            (if opp_last_move rules \<noteq> None \<and> opponent_history \<noteq> [] then
               (let olm = the (opp_last_move rules);
                    last_opp_move = last opponent_history
                in
                if last_opp_move = C \<and> on_C olm \<noteq> None then
                  (the (on_C olm), the (on_C olm) = D)
                else if last_opp_move = D \<and> on_D olm \<noteq> None then
                  (the (on_D olm), the (on_D olm) = D)
                else (default, False))
             else if opp_coop_lt rules \<noteq> None \<and> opponent_history \<noteq> [] then
               (let r = the (opp_coop_lt rules);
                    coop_count = count_list opponent_history C;
                    total_moves = length opponent_history;
                    coop_rate = (if total_moves > 0 then pct coop_count total_moves else 100)
                in
                if coop_rate < real_of_int (rule_value r) then (rule_move r, rule_move r = D)
                else (default, False))
             else if round_gt rules \<noteq> None
                     \<and> round_number > rule_value (the (round_gt rules)) then
               (rule_move (the (round_gt rules)), rule_move (the (round_gt rules)) = D)
             else (default, False))
      in
      if move = D \<and> rule_triggered_defection then
        (let (d, g') = random g in
         if d < forgiveness_prob then Inr (C, g') else Inr (move, g'))
      else Inr (move, g))"

definition create_custom_strategy_function ::
  "(nat \<Rightarrow> nat \<Rightarrow> real) \<Rightarrow> rule_set \<Rightarrow> strategy" where
  "create_custom_strategy_function pct rules = custom_strategy_logic pct rules"

text \<open>
  The exact percentage, one instance of \<open>pct\<close>. It is the value of the float expression
  wherever that one is computed without rounding, as at 0 of 1 and at 1 of 2, the counts
  the concrete evaluations below use; elsewhere the two can differ in the last place.
\<close>

definition exact_pct :: "nat \<Rightarrow> nat \<Rightarrow> real" where
  "exact_pct coop_count total_moves = real coop_count / real total_moves * 100"

section \<open>The strategy registry\<close>

text \<open>
  \<^verbatim>\<open>STRATEGIES\<close> is a global dictionary from strategy ids to entries; the fields the
  core reads are the display name and the decision function. The registry is mutable at
  run time, so the operations take it as an argument.
\<close>

record strategy_entry =
  name :: string
  func :: strategy
  is_custom :: bool
  rules :: "rule_set option"

type_synonym registry = "string \<rightharpoonup> strategy_entry"

definition builtin :: "string \<Rightarrow> strategy \<Rightarrow> strategy_entry" where
  "builtin n f = \<lparr>name = n, func = f, is_custom = False, rules = None\<rparr>"

definition BUILT_IN_STRATEGIES_META :: registry where
  "BUILT_IN_STRATEGIES_META = map_of
     [(''cooperate'', builtin ''Always Cooperate'' always_cooperate),
      (''defect'', builtin ''Always Defect'' always_defect),
      (''tit_for_tat'', builtin ''Tit for Tat (TFT)'' tit_for_tat),
      (''grudger'', builtin ''Grudger'' grudger),
      (''random'', builtin ''Random'' random_strategy),
      (''tit_for_two_tats'', builtin ''Tit for Two Tats'' tit_for_two_tats),
      (''suspicious_tft'', builtin ''Suspicious TFT'' suspicious_tit_for_tat),
      (''generous_tft_10'', builtin ''Generous TFT (10%)'' generous_tit_for_tat_10),
      (''pavlov'', builtin ''Pavlov (Win-Stay, Lose-Shift)'' pavlov),
      (''prober'', builtin ''Prober'' prober),
      (''majority'', builtin ''Majority'' majority)]"

text \<open>
  One iteration of the loop of \<^verbatim>\<open>load_custom_strategies\<close> over the definitions read
  from the file: an entry without \<^verbatim>\<open>'rules'\<close> or \<^verbatim>\<open>'name'\<close> is skipped, any
  other is compiled and stored in both dictionaries. The state is the pair
  (\<^verbatim>\<open>STRATEGIES\<close>, \<^verbatim>\<open>CUSTOM_STRATEGIES\<close>).
\<close>

record custom_def =
  def_name :: "string option"
  def_rules :: "rule_set option"

definition load_custom_entry ::
  "(nat \<Rightarrow> nat \<Rightarrow> real) \<Rightarrow> registry \<times> registry \<Rightarrow> string \<times> custom_def \<Rightarrow> registry \<times> registry" where
  "load_custom_entry pct regs item =
     (let (STRATEGIES, CUSTOM_STRATEGIES) = regs; (strat_id, data) = item in
      if def_rules data = None \<or> def_name data = None then regs
      else
        (let strategy_func = create_custom_strategy_function pct (the (def_rules data));
             full_data = \<lparr>name = the (def_name data), func = strategy_func,
                          is_custom = True, rules = def_rules data\<rparr>
         in (STRATEGIES(strat_id \<mapsto> full_data), CUSTOM_STRATEGIES(strat_id \<mapsto> full_data))))"

definition load_custom_strategies ::
  "(nat \<Rightarrow> nat \<Rightarrow> real) \<Rightarrow> (string \<times> custom_def) list \<Rightarrow> registry \<times> registry" where
  "load_custom_strategies pct loaded_custom_defs =
     foldl (load_custom_entry pct) (BUILT_IN_STRATEGIES_META, Map.empty) loaded_custom_defs"

section \<open>The game\<close>

text \<open>\<^verbatim>\<open>lambda *args: COOPERATE\<close>, the function given to an id the registry does not hold.\<close>

definition missing_func :: strategy where
  "missing_func my_history opponent_history round_number forgiveness_prob g = Inr (C, g)"

record game =
  strategy1_id :: string
  strategy2_id :: string
  num_rounds :: int
  noise_prob :: real
  forgiveness_prob :: real
  history1 :: "move list"
  history2 :: "move list"
  score1 :: int
  score2 :: int
  strategy1_func :: strategy
  strategy2_func :: strategy
  strategy1_name :: string
  strategy2_name :: string

definition Game_init ::
  "registry \<Rightarrow> string \<Rightarrow> string \<Rightarrow> int \<Rightarrow> real \<Rightarrow> real \<Rightarrow> game" where
  "Game_init STRATEGIES strategy1_id' strategy2_id' num_rounds' noise_prob' forgiveness_prob' =
     \<lparr>strategy1_id = strategy1_id',
      strategy2_id = strategy2_id',
      num_rounds = num_rounds',
      noise_prob = noise_prob',
      forgiveness_prob = forgiveness_prob',
      history1 = [],
      history2 = [],
      score1 = 0,
      score2 = 0,
      strategy1_func = (case STRATEGIES strategy1_id' of Some e \<Rightarrow> func e | None \<Rightarrow> missing_func),
      strategy2_func = (case STRATEGIES strategy2_id' of Some e \<Rightarrow> func e | None \<Rightarrow> missing_func),
      strategy1_name = (case STRATEGIES strategy1_id' of Some e \<Rightarrow> name e | None \<Rightarrow> strategy1_id'),
      strategy2_name = (case STRATEGIES strategy2_id' of Some e \<Rightarrow> name e | None \<Rightarrow> strategy2_id')\<rparr>"

text \<open>
  \<^verbatim>\<open>play_round\<close>: both decisions first (an exception of either leaves the game
  untouched), then one noise draw per player, then the histories and the scores.
  It returns the tuple of the source, the updated game and the random source.
\<close>

definition play_round ::
  "game \<Rightarrow> int \<Rightarrow> rng \<Rightarrow> py_error + ((move \<times> move \<times> int \<times> int) \<times> game \<times> rng)" where
  "play_round self round_number g =
     (case strategy1_func self (history1 self) (history2 self) round_number
             (forgiveness_prob self) g of
        Inl e \<Rightarrow> Inl e
      | Inr (move1_intended, g1) \<Rightarrow>
     (case strategy2_func self (history2 self) (history1 self) round_number
             (forgiveness_prob self) g1 of
        Inl e \<Rightarrow> Inl e
      | Inr (move2_intended, g2) \<Rightarrow>
     (let (d1, g3) = random g2;
          move1_actual = (if d1 < noise_prob self then invert move1_intended else move1_intended);
          (d2, g4) = random g3;
          move2_actual = (if d2 < noise_prob self then invert move2_intended else move2_intended);
          (payoff1, payoff2) = PAYOFFS (move1_actual, move2_actual);
          self' = self\<lparr>history1 := history1 self @ [move1_actual],
                       history2 := history2 self @ [move2_actual],
                       score1 := score1 self + payoff1,
                       score2 := score2 self + payoff2\<rparr>
      in Inr ((move1_actual, move2_actual, payoff1, payoff2), self', g4))))"

text \<open>A sequence of \<^verbatim>\<open>play_round\<close> calls, one per round number given; the first exception ends it.\<close>

fun play_rounds :: "game \<Rightarrow> int list \<Rightarrow> rng \<Rightarrow> py_error + (game \<times> rng)" where
  "play_rounds self [] g = Inr (self, g)"
| "play_rounds self (r # rs) g =
     (case play_round self r g of
        Inl e \<Rightarrow> Inl e
      | Inr (out, self', g') \<Rightarrow> play_rounds self' rs g')"

text \<open>
  \<^verbatim>\<open>run_game\<close>: \<^verbatim>\<open>for r in range(self.num_rounds)\<close>, then the scores and the two
  histories joined into strings.
\<close>

definition run_game ::
  "game \<Rightarrow> rng \<Rightarrow> py_error + ((int \<times> int \<times> string \<times> string) \<times> game \<times> rng)" where
  "run_game self g =
     (case play_rounds self (map int [0..<nat (num_rounds self)]) g of
        Inl e \<Rightarrow> Inl e
      | Inr (self', g') \<Rightarrow>
          Inr ((score1 self', score2 self',
                map move_char (history1 self'), map move_char (history2 self')), self', g'))"

text \<open>
  \<^verbatim>\<open>get_round_data\<close>: the moves and payoffs of a recorded round, \<open>None\<close> for the
  tuple of four \<^verbatim>\<open>None\<close>s returned out of range.
\<close>

definition get_round_data :: "game \<Rightarrow> int \<Rightarrow> py_error + (move \<times> move \<times> int \<times> int) option" where
  "get_round_data self round_num =
     (if 0 \<le> round_num \<and> round_num < int (length (history1 self)) then
        (if nat round_num < length (history2 self) then
           (let m1 = history1 self ! nat round_num;
                m2 = history2 self ! nat round_num;
                (p1, p2) = PAYOFFS (m1, m2)
            in Inr (Some (m1, m2, p1, p2)))
         else Inl IndexError)
      else Inr None)"

section \<open>Entry points of single matches\<close>

text \<open>
  \<^verbatim>\<open>start_single_game\<close> up to the construction of the game: a missing selection
  (a falsy id) ends it with the warning "Select strategies.", an id that is not in
  \<^verbatim>\<open>STRATEGIES\<close> with the error "Invalid strategy selected.", and only then is the
  \<^verbatim>\<open>Game\<close> built.
\<close>

datatype start_refusal = SelectStrategies | InvalidStrategySelected

definition start_single_game ::
  "registry \<Rightarrow> string \<Rightarrow> string \<Rightarrow> int \<Rightarrow> real \<Rightarrow> real \<Rightarrow> start_refusal + game" where
  "start_single_game STRATEGIES single_game_p1_id single_game_p2_id single_game_max_rounds
       global_noise global_forgiveness =
     (if single_game_p1_id = [] \<or> single_game_p2_id = [] then Inl SelectStrategies
      else if STRATEGIES single_game_p1_id = None \<or> STRATEGIES single_game_p2_id = None then
        Inl InvalidStrategySelected
      else Inr (Game_init STRATEGIES single_game_p1_id single_game_p2_id single_game_max_rounds
                  global_noise global_forgiveness))"

text \<open>
  The intended move of one sandbox player: the move chosen by hand (\<open>None\<close> while none
  is chosen) for a manual player, otherwise \<^verbatim>\<open>STRATEGIES[p_id]['func'](...)\<close>, a
  subscript that raises KeyError on an id the registry does not hold.
\<close>

definition sandbox_intended ::
  "registry \<Rightarrow> bool \<Rightarrow> move option \<Rightarrow> string \<Rightarrow> move list \<Rightarrow> move list \<Rightarrow> int \<Rightarrow> real \<Rightarrow> rng
     \<Rightarrow> py_error + (move option \<times> rng)" where
  "sandbox_intended STRATEGIES manual manual_move p_id my_history opponent_history round_num
       global_forgiveness g =
     (if manual then Inr (manual_move, g)
      else
        (case STRATEGIES p_id of
           None \<Rightarrow> Inl KeyError
         | Some e \<Rightarrow>
             (case func e my_history opponent_history round_num global_forgiveness g of
                Inl err \<Rightarrow> Inl err
              | Inr (m, g') \<Rightarrow> Inr (Some m, g'))))"

text \<open>
  The \<^verbatim>\<open>try\<close> block of \<^verbatim>\<open>sandbox_play_next_round\<close> on an existing sandbox game: the
  two intended moves, player one first; without a move for a manual player nothing is
  recorded ("Manual input required."); otherwise noise, histories and scores as in
  \<^verbatim>\<open>play_round\<close>, with the global noise setting. An exception (\<open>Inl\<close>) is reported
  by the handler, which then resets the sandbox; no round is recorded. The display
  update and the clearing of the two hand-chosen moves after a round are left out.
\<close>

definition sandbox_play_next_round ::
  "registry \<Rightarrow> game \<Rightarrow> string \<Rightarrow> string \<Rightarrow> bool \<Rightarrow> bool \<Rightarrow> move option \<Rightarrow> move option
     \<Rightarrow> real \<Rightarrow> real \<Rightarrow> rng \<Rightarrow> py_error + (game \<times> rng)" where
  "sandbox_play_next_round STRATEGIES sandbox_game p1_id p2_id sandbox_p1_manual sandbox_p2_manual
       sandbox_p1_move sandbox_p2_move global_noise global_forgiveness g =
     (let round_num = int (length (history1 sandbox_game)) in
      case sandbox_intended STRATEGIES sandbox_p1_manual sandbox_p1_move p1_id
             (history1 sandbox_game) (history2 sandbox_game) round_num global_forgiveness g of
        Inl e \<Rightarrow> Inl e
      | Inr (m1_int, g1) \<Rightarrow>
     (case sandbox_intended STRATEGIES sandbox_p2_manual sandbox_p2_move p2_id
             (history2 sandbox_game) (history1 sandbox_game) round_num global_forgiveness g1 of
        Inl e \<Rightarrow> Inl e
      | Inr (m2_int, g2) \<Rightarrow>
     (if m1_int = None \<or> m2_int = None then Inr (sandbox_game, g2)
      else
        (let (d1, g3) = random g2;
             m1_act = (if d1 < global_noise then invert (the m1_int) else the m1_int);
             (d2, g4) = random g3;
             m2_act = (if d2 < global_noise then invert (the m2_int) else the m2_int);
             (payoff1, payoff2) = PAYOFFS (m1_act, m2_act)
         in Inr (sandbox_game\<lparr>history1 := history1 sandbox_game @ [m1_act],
                               history2 := history2 sandbox_game @ [m2_act],
                               score1 := score1 sandbox_game + payoff1,
                               score2 := score2 sandbox_game + payoff2\<rparr>, g4)))))"

section \<open>Statistics\<close>

record stat_record =
  wins :: int
  losses :: int
  draws :: int
  total_score :: int
  games_played :: int

type_synonym stats = "string \<rightharpoonup> stat_record"

text \<open>The body of the loop of \<^verbatim>\<open>update_player_stats\<close>, for one of the two players.\<close>

definition update_one_player :: "registry \<Rightarrow> stats \<Rightarrow> string \<Rightarrow> int \<Rightarrow> int \<Rightarrow> stats" where
  "update_one_player STRATEGIES PLAYER_STATS pid score opp_score =
     (if prefix ''manual_'' pid then PLAYER_STATS
      else if STRATEGIES pid = None then PLAYER_STATS
      else
        (let s0 = (case PLAYER_STATS pid of
                     None \<Rightarrow> \<lparr>wins = 0, losses = 0, draws = 0, total_score = 0, games_played = 0\<rparr>
                   | Some s \<Rightarrow> s);
             s1 = s0\<lparr>games_played := games_played s0 + 1, total_score := total_score s0 + score\<rparr>;
             s2 = (if score > opp_score then s1\<lparr>wins := wins s1 + 1\<rparr>
                   else if opp_score > score then s1\<lparr>losses := losses s1 + 1\<rparr>
                   else s1\<lparr>draws := draws s1 + 1\<rparr>)
         in PLAYER_STATS(pid \<mapsto> s2)))"


section \<open>The elimination tournament\<close>

text \<open>
  The branch \<^verbatim>\<open>tourn_type == "Elimination"\<close> of \<^verbatim>\<open>run_tournament\<close>. The state
  it works on: \<^verbatim>\<open>full_ranking_data\<close> (the elimination round is \<^verbatim>\<open>float('inf')\<close>
  until it is set), \<^verbatim>\<open>all_matches_data\<close>, the global \<^verbatim>\<open>PLAYER_STATS\<close> and the
  random source. Status-bar messages and prints are left out.
\<close>

record ranking_entry =
  score :: int
  games :: int
  elim_round :: enat

record match_data =
  sim_type :: string
  p1_id :: string
  p2_id :: string
  md_score1 :: int
  md_score2 :: int
  hist1 :: string
  hist2 :: string

record tournament_state =
  full_ranking_data :: "string \<rightharpoonup> ranking_entry"
  all_matches_data :: "match_data list"
  PLAYER_STATS :: stats
  random_state :: rng















text \<open>
  The number of times the body of the bracket loop runs for \<open>n\<close> participants: each
  round leaves half of them, rounded up.
\<close>

fun bracket_rounds :: "nat \<Rightarrow> nat" where
  "bracket_rounds n = (if n \<le> 1 then 0 else Suc (bracket_rounds ((n + 1) div 2)))"

section \<open>Group ranking\<close>

text \<open>
  \<^verbatim>\<open>sorted(xs, key=k, reverse=True)\<close>: descending by key, and elements with equal keys
  stay in their original order. \<open>sort_key\<close> is a stable ascending sort.
\<close>

definition py_sorted_reverse :: "('a \<Rightarrow> 'k::linorder) \<Rightarrow> 'a list \<Rightarrow> 'a list" where
  "py_sorted_reverse key xs = rev (sort_key key (rev xs))"

text \<open>The key of the group ranking: \<^verbatim>\<open>(group_stage_scores.get(x, 0), STRATEGIES.get(x,{}).get('name',''))\<close>.\<close>

definition group_key :: "(string \<rightharpoonup> int) \<Rightarrow> registry \<Rightarrow> string \<Rightarrow> int \<times> string" where
  "group_key group_stage_scores STRATEGIES x =
     ((case group_stage_scores x of Some s \<Rightarrow> s | None \<Rightarrow> 0),
      (case STRATEGIES x of Some e \<Rightarrow> name e | None \<Rightarrow> []))"

definition group_ranked :: "(string \<rightharpoonup> int) \<Rightarrow> registry \<Rightarrow> string list \<Rightarrow> string list" where
  "group_ranked group_stage_scores STRATEGIES group_members =
     py_sorted_reverse (group_key group_stage_scores STRATEGIES) group_members"

text \<open>\<^verbatim>\<open>group_ranked[:num_qualifiers]\<close>; the run is refused before when \<^verbatim>\<open>num_qualifiers < 1\<close>.\<close>

definition group_qualifiers :: "(string \<rightharpoonup> int) \<Rightarrow> registry \<Rightarrow> nat \<Rightarrow> string list \<Rightarrow> string list" where
  "group_qualifiers group_stage_scores STRATEGIES num_qualifiers group_members =
     take num_qualifiers (group_ranked group_stage_scores STRATEGIES group_members)"

section \<open>Predicates used in the statements\<close>

text \<open>
  When each rule of a rule set matches on its own, read off the conditions the source
  tests: the last-move rule needs a history and a target for the opponent's last move,
  the cooperation-rate rule a history and a rate below its value, the round rule a round
  number above its value.
\<close>

definition opp_last_move_matches :: "rule_set \<Rightarrow> move list \<Rightarrow> bool" where
  "opp_last_move_matches rs opponent_history =
     (case opp_last_move rs of
        None \<Rightarrow> False
      | Some olm \<Rightarrow> opponent_history \<noteq> []
          \<and> (if last opponent_history = C then on_C olm \<noteq> None else on_D olm \<noteq> None))"

definition opp_coop_lt_matches :: "(nat \<Rightarrow> nat \<Rightarrow> real) \<Rightarrow> rule_set \<Rightarrow> move list \<Rightarrow> bool" where
  "opp_coop_lt_matches pct rs opponent_history =
     (case opp_coop_lt rs of
        None \<Rightarrow> False
      | Some r \<Rightarrow> opponent_history \<noteq> []
          \<and> pct (count_list opponent_history C) (length opponent_history)
              < real_of_int (rule_value r))"

definition round_gt_matches :: "rule_set \<Rightarrow> int \<Rightarrow> bool" where
  "round_gt_matches rs round_number =
     (case round_gt rs of None \<Rightarrow> False | Some r \<Rightarrow> round_number > rule_value r)"

text \<open>
  A decision function that does not raise when it is called as \<^verbatim>\<open>run_game\<close> calls it:
  with two histories of the same length and that length as the round number.
\<close>

definition total_on_synced :: "strategy \<Rightarrow> bool" where
  "total_on_synced f =
     (\<forall>my opp fp g. length my = length opp
        \<longrightarrow> (\<exists>m g'. f my opp (int (length my)) fp g = Inr (m, g')))"

definition registry_total :: "registry \<Rightarrow> bool" where
  "registry_total STRATEGIES = (\<forall>sid e. STRATEGIES sid = Some e \<longrightarrow> total_on_synced (func e))"

text \<open>The histories have one length and each score is the sum of the recorded payoffs.\<close>

definition game_consistent :: "game \<Rightarrow> bool" where
  "game_consistent G =
     (length (history1 G) = length (history2 G)
      \<and> score1 G = (\<Sum>p\<leftarrow>zip (history1 G) (history2 G). fst (PAYOFFS p))
      \<and> score2 G = (\<Sum>p\<leftarrow>zip (history1 G) (history2 G). snd (PAYOFFS p)))"

section \<open>Concrete inputs\<close>

text \<open>A random source whose every draw is one half and whose every coin shows the first element.\<close>

definition half_rng :: rng where
  "half_rng = \<lparr>floats = (\<lambda>_. 1 / 2), fpos = 0, coins = (\<lambda>_. True), cpos = 0\<rparr>"

text \<open>
  A rule set the dialog can produce: a target for "opponent's last move was C" only, a
  cooperation-rate rule (below 50 percent, defect) and Cooperate as the default.
\<close>

definition c_only_rules :: rule_set where
  "c_only_rules = \<lparr>default_move = Some C,
     opp_last_move = Some \<lparr>on_C = Some C, on_D = None\<rparr>,
     opp_coop_lt = Some \<lparr>rule_value = 50, rule_move = D\<rparr>,
     round_gt = None\<rparr>"

text \<open>A rule set without the key \<^verbatim>\<open>'default'\<close>, as a definitions file can hold it.\<close>

definition no_default_rules :: rule_set where
  "no_default_rules =
     \<lparr>default_move = None, opp_last_move = None, opp_coop_lt = None, round_gt = None\<rparr>"

definition defect_default_rules :: rule_set where
  "defect_default_rules = \<lparr>default_move = Some D,
     opp_last_move = Some \<lparr>on_C = Some C, on_D = None\<rparr>,
     opp_coop_lt = Some \<lparr>rule_value = 50, rule_move = D\<rparr>,
     round_gt = Some \<lparr>rule_value = 10, rule_move = D\<rparr>\<rparr>"


text \<open>The group scores after ten rounds of Always Cooperate against Tit for Tat: 30 each.\<close>

definition tie_scores :: "string \<rightharpoonup> int" where
  "tie_scores = map_of [(''cooperate'', 30), (''tit_for_tat'', 30)]"

section \<open>Basic facts\<close>

declare bracket_rounds.simps [simp del]

lemma unit_draws_half_rng: "unit_draws half_rng"
  by (simp add: unit_draws_def half_rng_def)

lemma unit_draws_fpos [simp]: "unit_draws (g\<lparr>fpos := n\<rparr>) = unit_draws g"
  by (simp add: unit_draws_def)

lemma unit_draws_nonneg: "unit_draws g \<Longrightarrow> \<not> floats g i < 0"
  by (simp add: unit_draws_def not_less)

lemma builtin_lookup:
  "BUILT_IN_STRATEGIES_META ''cooperate'' = Some (builtin ''Always Cooperate'' always_cooperate)"
  "BUILT_IN_STRATEGIES_META ''defect'' = Some (builtin ''Always Defect'' always_defect)"
  "BUILT_IN_STRATEGIES_META ''tit_for_tat'' = Some (builtin ''Tit for Tat (TFT)'' tit_for_tat)"
  "BUILT_IN_STRATEGIES_META ''grudger'' = Some (builtin ''Grudger'' grudger)"
  "BUILT_IN_STRATEGIES_META ''ghost'' = None"
  by (simp_all add: BUILT_IN_STRATEGIES_META_def)

lemma range_literals:
  "[0..<2] = [0, 1]" "[0..<3] = [0, 1, 2]" "[0..<5] = [0, 1, 2, 3, 4]"
  by (simp_all add: upt_rec)

section \<open>One round and many\<close>

text \<open>What a round that returns has done to the game: one move appended to each history, one payoff added to each score, nothing else touched.\<close>

lemma play_round_effect:
  assumes "play_round G r g = Inr (out, G', g')"
  shows "\<exists>m1 m2. out = (m1, m2, fst (PAYOFFS (m1, m2)), snd (PAYOFFS (m1, m2)))
     \<and> G' = G\<lparr>history1 := history1 G @ [m1], history2 := history2 G @ [m2],
              score1 := score1 G + fst (PAYOFFS (m1, m2)),
              score2 := score2 G + snd (PAYOFFS (m1, m2))\<rparr>"
  using assms
  by (auto simp: play_round_def Let_def split_beta split: sum.splits)

lemma play_round_consistent:
  assumes "play_round G r g = Inr (out, G', g')" "game_consistent G"
  shows "game_consistent G' \<and> length (history1 G') = Suc (length (history1 G))
    \<and> num_rounds G' = num_rounds G \<and> strategy1_id G' = strategy1_id G
    \<and> strategy2_id G' = strategy2_id G \<and> noise_prob G' = noise_prob G
    \<and> forgiveness_prob G' = forgiveness_prob G"
proof -
  from play_round_effect[OF assms(1)] obtain m1 m2 where
    G': "G' = G\<lparr>history1 := history1 G @ [m1], history2 := history2 G @ [m2],
              score1 := score1 G + fst (PAYOFFS (m1, m2)),
              score2 := score2 G + snd (PAYOFFS (m1, m2))\<rparr>"
    by blast
  show ?thesis
    using assms(2) unfolding G' by (simp add: game_consistent_def)
qed

lemma play_rounds_consistent:
  "play_rounds G rs g = Inr (G', g') \<Longrightarrow> game_consistent G \<Longrightarrow>
   game_consistent G' \<and> length (history1 G') = length (history1 G) + length rs
    \<and> num_rounds G' = num_rounds G \<and> strategy1_id G' = strategy1_id G
    \<and> strategy2_id G' = strategy2_id G \<and> noise_prob G' = noise_prob G
    \<and> forgiveness_prob G' = forgiveness_prob G"
proof (induction rs arbitrary: G g)
  case Nil
  then show ?case by simp
next
  case (Cons r rs)
  from Cons.prems(1) obtain out G1 g1 where
    step: "play_round G r g = Inr (out, G1, g1)" and rest: "play_rounds G1 rs g1 = Inr (G', g')"
    by (auto split: sum.splits)
  from play_round_consistent[OF step Cons.prems(2)] Cons.IH[OF rest]
  show ?case by simp
qed

text \<open>Decision functions that do not raise on synchronised histories make every round, and so the whole game, return.\<close>

lemma play_round_total:
  assumes t1: "total_on_synced (strategy1_func G)" and t2: "total_on_synced (strategy2_func G)"
    and len: "length (history1 G) = k" "length (history2 G) = k"
  shows "\<exists>out G' g'. play_round G (int k) g = Inr (out, G', g')"
proof -
  from t1 len obtain m1 g1 where
    s1: "strategy1_func G (history1 G) (history2 G) (int k) (forgiveness_prob G) g = Inr (m1, g1)"
    unfolding total_on_synced_def by (metis (no_types))
  from t2 len obtain m2 g2 where
    s2: "strategy2_func G (history2 G) (history1 G) (int k) (forgiveness_prob G) g1 = Inr (m2, g2)"
    unfolding total_on_synced_def by (metis (no_types))
  show ?thesis
    by (simp add: play_round_def s1 s2 Let_def split_beta)
qed

lemma play_rounds_total:
  assumes "total_on_synced (strategy1_func G)" "total_on_synced (strategy2_func G)"
    "length (history1 G) = k" "length (history2 G) = k"
  shows "\<exists>G' g'. play_rounds G (map int [k..<k + j]) g = Inr (G', g')"
  using assms
proof (induction j arbitrary: G g k)
  case 0
  then show ?case by simp
next
  case (Suc j)
  from play_round_total[OF Suc.prems] obtain out G1 g1 where
    step: "play_round G (int k) g = Inr (out, G1, g1)" by blast
  from play_round_effect[OF step] obtain m1 m2 where
    G1: "G1 = G\<lparr>history1 := history1 G @ [m1], history2 := history2 G @ [m2],
              score1 := score1 G + fst (PAYOFFS (m1, m2)),
              score2 := score2 G + snd (PAYOFFS (m1, m2))\<rparr>" by blast
  have a: "total_on_synced (strategy1_func G1)" "total_on_synced (strategy2_func G1)"
    "length (history1 G1) = Suc k" "length (history2 G1) = Suc k"
    using Suc.prems by (simp_all add: G1)
  from Suc.IH[OF a] obtain G' g' where
    rest: "play_rounds G1 (map int [Suc k..<Suc k + j]) g1 = Inr (G', g')" by blast
  have "[k..<k + Suc j] = k # [Suc k..<Suc k + j]"
    by (simp add: upt_conv_Cons)
  then show ?case
    using step rest by simp
qed

lemma total_missing_func: "total_on_synced missing_func"
  by (simp add: total_on_synced_def missing_func_def)

lemma run_game_total:
  assumes "registry_total STRATEGIES"
  shows "\<exists>s1 s2 h1 h2 G' g'.
     run_game (Game_init STRATEGIES p q n np fp) g = Inr ((s1, s2, h1, h2), G', g')"
proof -
  let ?G = "Game_init STRATEGIES p q n np fp"
  have t1: "total_on_synced (strategy1_func ?G)"
    using assms
    by (auto simp: Game_init_def registry_total_def total_missing_func split: option.splits)
  have t2: "total_on_synced (strategy2_func ?G)"
    using assms
    by (auto simp: Game_init_def registry_total_def total_missing_func split: option.splits)
  have l: "length (history1 ?G) = 0" "length (history2 ?G) = 0"
    by (simp_all add: Game_init_def)
  from play_rounds_total[OF t1 t2 l, of "nat (num_rounds ?G)" g] obtain G' g' where
    "play_rounds ?G (map int [0..<nat (num_rounds ?G)]) g = Inr (G', g')" by auto
  then show ?thesis by (simp add: run_game_def)
qed

text \<open>None of the eleven built-in strategies raises on synchronised histories; Pavlov reads the last moves only after round 0, when both histories are non-empty.\<close>

lemma total_builtin:
  "total_on_synced always_cooperate"
  "total_on_synced always_defect"
  "total_on_synced tit_for_tat"
  "total_on_synced grudger"
  "total_on_synced random_strategy"
  "total_on_synced tit_for_two_tats"
  "total_on_synced suspicious_tit_for_tat"
  "total_on_synced generous_tit_for_tat_10"
  "total_on_synced prober"
  "total_on_synced majority"
  by (simp_all add: total_on_synced_def always_cooperate_def always_defect_def tit_for_tat_def
      grudger_def random_strategy_def tit_for_two_tats_def suspicious_tit_for_tat_def
      generous_tit_for_tat_10_def prober_def majority_def random_def random_choice_def
      Let_def split_beta)

lemma total_pavlov: "total_on_synced pavlov"
  unfolding total_on_synced_def
proof (intro allI impI)
  fix my opp :: "move list" and fp :: real and g :: rng
  assume l: "length my = length opp"
  show "\<exists>m g'. pavlov my opp (int (length my)) fp g = Inr (m, g')"
  proof (cases "my = []")
    case True
    then show ?thesis by (simp add: pavlov_def)
  next
    case False
    with l have "opp \<noteq> []" by auto
    with False show ?thesis
      by (simp add: pavlov_def Let_def split_beta random_def)
  qed
qed



lemma registry_total_builtin: "registry_total BUILT_IN_STRATEGIES_META"
  unfolding registry_total_def
proof (intro allI impI)
  fix sid e
  assume "BUILT_IN_STRATEGIES_META sid = Some e"
  then have "(sid, e) \<in> set
     [(''cooperate'', builtin ''Always Cooperate'' always_cooperate),
      (''defect'', builtin ''Always Defect'' always_defect),
      (''tit_for_tat'', builtin ''Tit for Tat (TFT)'' tit_for_tat),
      (''grudger'', builtin ''Grudger'' grudger),
      (''random'', builtin ''Random'' random_strategy),
      (''tit_for_two_tats'', builtin ''Tit for Two Tats'' tit_for_two_tats),
      (''suspicious_tft'', builtin ''Suspicious TFT'' suspicious_tit_for_tat),
      (''generous_tft_10'', builtin ''Generous TFT (10%)'' generous_tit_for_tat_10),
      (''pavlov'', builtin ''Pavlov (Win-Stay, Lose-Shift)'' pavlov),
      (''prober'', builtin ''Prober'' prober),
      (''majority'', builtin ''Majority'' majority)]"
    unfolding BUILT_IN_STRATEGIES_META_def by (rule map_of_SomeD)
  then have "func e \<in> {always_cooperate, always_defect, tit_for_tat, grudger, random_strategy,
      tit_for_two_tats, suspicious_tit_for_tat, generous_tit_for_tat_10, pavlov, prober, majority}"
    by (auto simp: builtin_def)
  then show "total_on_synced (func e)"
    using total_builtin total_pavlov by auto
qed

section \<open>Tit for Tat against Always Defect\<close>

text \<open>
  One round of a game whose first player is Tit for Tat and whose second is Always
  Defect, without noise and forgiveness: no draw is below zero, so Tit for Tat mirrors
  and no move is inverted.
\<close>

lemma tft_alld_round:
  assumes "unit_draws g" "strategy1_func G = tit_for_tat" "strategy2_func G = always_defect"
    "noise_prob G = 0" "forgiveness_prob G = 0"
  shows "play_round G r g =
    (let m = (if history2 G = [] then C else last (history2 G)) in
     Inr ((m, D, fst (PAYOFFS (m, D)), snd (PAYOFFS (m, D))),
          G\<lparr>history1 := history1 G @ [m], history2 := history2 G @ [D],
            score1 := score1 G + fst (PAYOFFS (m, D)),
            score2 := score2 G + snd (PAYOFFS (m, D))\<rparr>,
          g\<lparr>fpos := fpos g + (if history2 G \<noteq> [] \<and> last (history2 G) = D then 3 else 2)\<rparr>))"
  using assms unit_draws_nonneg[OF assms(1)]
  by (simp add: play_round_def tit_for_tat_def always_defect_def random_def Let_def split_beta)

lemma tft_alld_five_rounds:
  assumes "unit_draws g"
  shows "play_rounds (Game_init BUILT_IN_STRATEGIES_META ''tit_for_tat'' ''defect'' 5 0 0)
           [0, 1, 2, 3, 4] g
   = Inr ((Game_init BUILT_IN_STRATEGIES_META ''tit_for_tat'' ''defect'' 5 0 0)
            \<lparr>history1 := [C, D, D, D, D], history2 := [D, D, D, D, D],
             score1 := 4, score2 := 9\<rparr>,
          g\<lparr>fpos := fpos g + 14\<rparr>)"
  using assms
  by (simp add: Game_init_def builtin_lookup builtin_def tft_alld_round Let_def)

text \<open>
  C9. A 5-round match of Tit for Tat against Always Defect with zero noise and zero
  forgiveness, on any random source whose draws lie in the unit interval: \<^verbatim>\<open>run_game\<close>
  returns the scores 4 and 9 and the histories "CDDDD" and "DDDDD"; the first round is
  (C, D) with payoffs (0, 5), the four others are (D, D) with payoffs (1, 1), and there
  is no sixth round.
\<close>

theorem scenario_tft_vs_always_defect:
  assumes "unit_draws g"
  shows "\<exists>G' g'. run_game (Game_init BUILT_IN_STRATEGIES_META ''tit_for_tat'' ''defect'' 5 0 0) g
       = Inr ((4, 9, ''CDDDD'', ''DDDDD''), G', g')
     \<and> get_round_data G' 0 = Inr (Some (C, D, 0, 5))
     \<and> get_round_data G' 1 = Inr (Some (D, D, 1, 1))
     \<and> get_round_data G' 2 = Inr (Some (D, D, 1, 1))
     \<and> get_round_data G' 3 = Inr (Some (D, D, 1, 1))
     \<and> get_round_data G' 4 = Inr (Some (D, D, 1, 1))
     \<and> get_round_data G' 5 = Inr None"
proof -
  have n: "map int [0..<nat (num_rounds
      (Game_init BUILT_IN_STRATEGIES_META ''tit_for_tat'' ''defect'' 5 0 0))] = [0, 1, 2, 3, 4]"
    by (simp add: Game_init_def range_literals)
  show ?thesis
    unfolding run_game_def n tft_alld_five_rounds[OF assms]
    by (simp add: get_round_data_def move_char_def Game_init_def)
qed

text \<open>The scenario on the random source that always draws one half.\<close>

theorem scenario_tft_vs_always_defect_witness:
  "unit_draws half_rng
   \<and> (\<exists>G' g'. run_game (Game_init BUILT_IN_STRATEGIES_META ''tit_for_tat'' ''defect'' 5 0 0)
          half_rng = Inr ((4, 9, ''CDDDD'', ''DDDDD''), G', g')
       \<and> get_round_data G' 0 = Inr (Some (C, D, 0, 5))
       \<and> get_round_data G' 1 = Inr (Some (D, D, 1, 1))
       \<and> get_round_data G' 2 = Inr (Some (D, D, 1, 1))
       \<and> get_round_data G' 3 = Inr (Some (D, D, 1, 1))
       \<and> get_round_data G' 4 = Inr (Some (D, D, 1, 1))
       \<and> get_round_data G' 5 = Inr None)"
  using scenario_tft_vs_always_defect[OF unit_draws_half_rng] unit_draws_half_rng
  by blast

section \<open>The invariant of a game\<close>

text \<open>
  C10. After any sequence of \<^verbatim>\<open>play_round\<close> calls that returned on a freshly
  constructed game, whatever the strategies, the round numbers passed and the random
  source: both histories have as many entries as there were calls, each score is the sum
  over the recorded rounds of that player's payoff for the recorded pair of moves, and
  the round count, the two ids and the two probabilities are those given to the
  constructor.
\<close>

theorem play_round_invariant:
  assumes "play_rounds (Game_init STRATEGIES a b N np fp) rs g = Inr (G', g')"
  shows "length (history1 G') = length rs \<and> length (history2 G') = length rs
    \<and> score1 G' = (\<Sum>p\<leftarrow>zip (history1 G') (history2 G'). fst (PAYOFFS p))
    \<and> score2 G' = (\<Sum>p\<leftarrow>zip (history1 G') (history2 G'). snd (PAYOFFS p))
    \<and> num_rounds G' = N \<and> strategy1_id G' = a \<and> strategy2_id G' = b
    \<and> noise_prob G' = np \<and> forgiveness_prob G' = fp"
proof -
  have c0: "game_consistent (Game_init STRATEGIES a b N np fp)"
    by (simp add: game_consistent_def Game_init_def)
  from play_rounds_consistent[OF assms c0]
  show ?thesis by (simp add: game_consistent_def Game_init_def)
qed

text \<open>Three rounds of Tit for Tat against Always Defect, of a game constructed for five.\<close>

theorem play_round_invariant_witness:
  "\<exists>G' g'. play_rounds (Game_init BUILT_IN_STRATEGIES_META ''tit_for_tat'' ''defect'' 5 0 0)
       [0, 1, 2] half_rng = Inr (G', g')
     \<and> length (history1 G') = 3 \<and> length (history2 G') = 3
     \<and> score1 G' = (\<Sum>p\<leftarrow>zip (history1 G') (history2 G'). fst (PAYOFFS p))
     \<and> score2 G' = (\<Sum>p\<leftarrow>zip (history1 G') (history2 G'). snd (PAYOFFS p))
     \<and> num_rounds G' = 5 \<and> strategy1_id G' = ''tit_for_tat'' \<and> strategy2_id G' = ''defect''
     \<and> noise_prob G' = 0 \<and> forgiveness_prob G' = 0"
proof -
  have "\<exists>G' g'. play_rounds (Game_init BUILT_IN_STRATEGIES_META ''tit_for_tat'' ''defect'' 5 0 0)
       [0, 1, 2] half_rng = Inr (G', g')"
    using unit_draws_half_rng
    by (simp add: Game_init_def builtin_lookup builtin_def tft_alld_round Let_def)
  then obtain G' g' where
    run: "play_rounds (Game_init BUILT_IN_STRATEGIES_META ''tit_for_tat'' ''defect'' 5 0 0)
       [0, 1, 2] half_rng = Inr (G', g')"
    by blast
  from play_round_invariant[OF run] run show ?thesis
    by auto
qed

section \<open>Strategy ids that the registry does not hold\<close>

text \<open>
  C1, as the code has it. What happens to a match with a strategy id that the registry
  does not hold depends on where the match is started. A sandbox round looks the function
  up with a subscript and aborts with KeyError, a LookupError, before anything is
  recorded, whichever seat the automated absent player has (for the second seat, when the
  first player's function returns). The single-game entry point refuses the match before
  a game is constructed. A match run through \<^verbatim>\<open>Game\<close> itself, as every tournament match
  is, does not abort: the constructor gives the absent participant the constant-Cooperate
  function (which never raises and draws nothing) and its id as display name, in either
  seat; the match runs to completion whenever the registered strategies do not raise; and
  the statistics update leaves the statistics as they are for the absent id.
\<close>

theorem absent_id_plays_cooperate:
  assumes absent: "STRATEGIES p = None" and tot: "registry_total STRATEGIES"
  shows "strategy1_func (Game_init STRATEGIES p q n np fp) = missing_func
     \<and> strategy1_name (Game_init STRATEGIES p q n np fp) = p
     \<and> strategy2_func (Game_init STRATEGIES q p n np fp) = missing_func
     \<and> strategy2_name (Game_init STRATEGIES q p n np fp) = p
     \<and> missing_func my_history opponent_history round_number f g = Inr (C, g)
     \<and> (\<exists>res G' g'. run_game (Game_init STRATEGIES p q n np fp) g = Inr (res, G', g'))
     \<and> (\<exists>res G' g'. run_game (Game_init STRATEGIES q p n np fp) g = Inr (res, G', g'))
     \<and> update_one_player STRATEGIES player_stats p sc opp_sc = player_stats
     \<and> start_single_game STRATEGIES p q n np fp
         = (if p = [] \<or> q = [] then Inl SelectStrategies else Inl InvalidStrategySelected)
     \<and> start_single_game STRATEGIES q p n np fp
         = (if p = [] \<or> q = [] then Inl SelectStrategies else Inl InvalidStrategySelected)
     \<and> (\<not> p1_manual \<longrightarrow>
           sandbox_play_next_round STRATEGIES G p q p1_manual p2_manual p1_move p2_move np fp g
             = Inl KeyError)
     \<and> (\<not> p2_manual \<and> (p1_manual \<or> length (history1 G) = length (history2 G)) \<longrightarrow>
           sandbox_play_next_round STRATEGIES G q p p1_manual p2_manual p1_move p2_move np fp g
             = Inl KeyError)"
proof -
  from run_game_total[OF tot, of p q n np fp g]
  have r1: "\<exists>res G' g'. run_game (Game_init STRATEGIES p q n np fp) g = Inr (res, G', g')"
    by blast
  from run_game_total[OF tot, of q p n np fp g]
  have r2: "\<exists>res G' g'. run_game (Game_init STRATEGIES q p n np fp) g = Inr (res, G', g')"
    by blast
  have game: "strategy1_func (Game_init STRATEGIES p q n np fp) = missing_func
     \<and> strategy1_name (Game_init STRATEGIES p q n np fp) = p
     \<and> strategy2_func (Game_init STRATEGIES q p n np fp) = missing_func
     \<and> strategy2_name (Game_init STRATEGIES q p n np fp) = p
     \<and> missing_func my_history opponent_history round_number f g = Inr (C, g)
     \<and> update_one_player STRATEGIES player_stats p sc opp_sc = player_stats"
    using absent by (simp add: Game_init_def missing_func_def update_one_player_def)
  have single: "start_single_game STRATEGIES p q n np fp
         = (if p = [] \<or> q = [] then Inl SelectStrategies else Inl InvalidStrategySelected)"
    "start_single_game STRATEGIES q p n np fp
         = (if p = [] \<or> q = [] then Inl SelectStrategies else Inl InvalidStrategySelected)"
    using absent by (auto simp: start_single_game_def)
  have sb1: "\<not> p1_manual \<longrightarrow>
           sandbox_play_next_round STRATEGIES G p q p1_manual p2_manual p1_move p2_move np fp g
             = Inl KeyError"
    using absent by (simp add: sandbox_play_next_round_def sandbox_intended_def)
  have first: "p1_manual \<or> length (history1 G) = length (history2 G) \<Longrightarrow>
      sandbox_intended STRATEGIES p1_manual p1_move q (history1 G) (history2 G)
        (int (length (history1 G))) fp g = Inl KeyError
      \<or> (\<exists>m g1. sandbox_intended STRATEGIES p1_manual p1_move q (history1 G) (history2 G)
        (int (length (history1 G))) fp g = Inr (m, g1))"
  proof (cases "p1_manual")
    case True
    then show ?thesis by (simp add: sandbox_intended_def)
  next
    case False
    assume "p1_manual \<or> length (history1 G) = length (history2 G)"
    with False have len: "length (history1 G) = length (history2 G)" by simp
    show ?thesis
    proof (cases "STRATEGIES q")
      case None
      with False show ?thesis by (simp add: sandbox_intended_def)
    next
      case (Some e)
      with tot have "total_on_synced (func e)" by (auto simp: registry_total_def)
      with len obtain m g1 where
        "func e (history1 G) (history2 G) (int (length (history1 G))) fp g = Inr (m, g1)"
        unfolding total_on_synced_def by blast
      with Some False show ?thesis by (simp add: sandbox_intended_def)
    qed
  qed
  have sb2: "\<not> p2_manual \<and> (p1_manual \<or> length (history1 G) = length (history2 G)) \<longrightarrow>
           sandbox_play_next_round STRATEGIES G q p p1_manual p2_manual p1_move p2_move np fp g
             = Inl KeyError"
  proof (intro impI, elim conjE)
    assume a: "\<not> p2_manual" and b: "p1_manual \<or> length (history1 G) = length (history2 G)"
    from first[OF b] show "sandbox_play_next_round STRATEGIES G q p p1_manual p2_manual
        p1_move p2_move np fp g = Inl KeyError"
    proof
      assume "sandbox_intended STRATEGIES p1_manual p1_move q (history1 G) (history2 G)
        (int (length (history1 G))) fp g = Inl KeyError"
      then show ?thesis by (simp add: sandbox_play_next_round_def)
    next
      assume "\<exists>m g1. sandbox_intended STRATEGIES p1_manual p1_move q (history1 G) (history2 G)
        (int (length (history1 G))) fp g = Inr (m, g1)"
      then obtain m g1 where
        i1: "sandbox_intended STRATEGIES p1_manual p1_move q (history1 G) (history2 G)
        (int (length (history1 G))) fp g = Inr (m, g1)" by blast
      have i2: "sandbox_intended STRATEGIES p2_manual p2_move p (history2 G) (history1 G)
        (int (length (history1 G))) fp g1 = Inl KeyError"
        using a absent by (simp add: sandbox_intended_def)
      show ?thesis by (simp add: sandbox_play_next_round_def i1 i2)
    qed
  qed
  show ?thesis
    using game r1 r2 single sb1 sb2 by simp
qed

text \<open>The id \<^verbatim>\<open>ghost\<close> is not a built-in strategy.\<close>

theorem absent_id_plays_cooperate_witness:
  "BUILT_IN_STRATEGIES_META ''ghost'' = None \<and> registry_total BUILT_IN_STRATEGIES_META
   \<and> strategy1_func (Game_init BUILT_IN_STRATEGIES_META ''ghost'' ''defect'' 3 0 0) = missing_func
   \<and> strategy1_name (Game_init BUILT_IN_STRATEGIES_META ''ghost'' ''defect'' 3 0 0) = ''ghost''
   \<and> (\<exists>res G' g'. run_game (Game_init BUILT_IN_STRATEGIES_META ''ghost'' ''defect'' 3 0 0)
          half_rng = Inr (res, G', g'))
   \<and> update_one_player BUILT_IN_STRATEGIES_META Map.empty ''ghost'' 0 15 = Map.empty
   \<and> start_single_game BUILT_IN_STRATEGIES_META ''ghost'' ''defect'' 3 0 0
       = Inl InvalidStrategySelected
   \<and> sandbox_play_next_round BUILT_IN_STRATEGIES_META
        (Game_init BUILT_IN_STRATEGIES_META ''ghost'' ''defect'' 3 0 0)
        ''ghost'' ''defect'' False False None None 0 0 half_rng = Inl KeyError
   \<and> sandbox_play_next_round BUILT_IN_STRATEGIES_META
        (Game_init BUILT_IN_STRATEGIES_META ''defect'' ''ghost'' 3 0 0)
        ''defect'' ''ghost'' False False None None 0 0 half_rng = Inl KeyError"
proof -
  have len: "length (history1 (Game_init BUILT_IN_STRATEGIES_META ''defect'' ''ghost'' 3 0 0))
      = length (history2 (Game_init BUILT_IN_STRATEGIES_META ''defect'' ''ghost'' 3 0 0))"
    by (simp add: Game_init_def)
  from absent_id_plays_cooperate[OF builtin_lookup(5) registry_total_builtin,
      where q = "''defect''" and n = 3 and np = 0 and fp = 0 and g = half_rng
        and player_stats = Map.empty and sc = 0 and opp_sc = 15
        and p1_manual = False and p2_manual = False and p1_move = None and p2_move = None
        and G = "Game_init BUILT_IN_STRATEGIES_META ''ghost'' ''defect'' 3 0 0"]
    absent_id_plays_cooperate[OF builtin_lookup(5) registry_total_builtin,
      where q = "''defect''" and n = 3 and np = 0 and fp = 0 and g = half_rng
        and p1_manual = False and p2_manual = False and p1_move = None and p2_move = None
        and G = "Game_init BUILT_IN_STRATEGIES_META ''defect'' ''ghost'' 3 0 0"]
    len builtin_lookup(5) registry_total_builtin
  show ?thesis by simp
qed

text \<open>
  Against the claim as stated: with the id \<^verbatim>\<open>ghost\<close> absent from the registry, the
  three-round match against Always Defect returns its result, 0 to 15 with the histories
  "CCC" and "DDD", instead of raising.
\<close>

theorem absent_id_counterexample:
  "BUILT_IN_STRATEGIES_META ''ghost'' = None
   \<and> (\<exists>G g'. run_game (Game_init BUILT_IN_STRATEGIES_META ''ghost'' ''defect'' 3 0 0) half_rng
          = Inr ((0, 15, ''CCC'', ''DDD''), G, g'))"
  by (simp add: builtin_lookup run_game_def Game_init_def range_literals play_round_def
      missing_func_def always_defect_def builtin_def random_def half_rng_def invert_def
      move_char_def)

section \<open>Probabilities outside the unit interval\<close>

text \<open>
  C7, as the code has it. Neither the constructor nor \<^verbatim>\<open>play_round\<close> checks the two
  probabilities, whatever their values: the constructor stores both unchanged; a round
  calls the two strategies with the stored forgiveness probability, returns whenever they
  return, inverts a player's intended move exactly when that player's noise draw is below
  the stored noise probability, and leaves both probabilities as they are. With draws in
  the unit interval, a noise probability of 1 or more therefore inverts both intended
  moves, and one of 0 or less inverts none.
\<close>

theorem probabilities_used_as_given:
  assumes s1: "strategy1_func G (history1 G) (history2 G) r (forgiveness_prob G) g = Inr (m1, g1)"
    and s2: "strategy2_func G (history2 G) (history1 G) r (forgiveness_prob G) g1 = Inr (m2, g2)"
  shows "noise_prob (Game_init STRATEGIES a b n np fp) = np
     \<and> forgiveness_prob (Game_init STRATEGIES a b n np fp) = fp
     \<and> (\<exists>G'. play_round G r g =
            Inr (((if floats g2 (fpos g2) < noise_prob G then invert m1 else m1),
                  (if floats g2 (Suc (fpos g2)) < noise_prob G then invert m2 else m2),
                  PAYOFFS ((if floats g2 (fpos g2) < noise_prob G then invert m1 else m1),
                           (if floats g2 (Suc (fpos g2)) < noise_prob G then invert m2 else m2))),
                 G', g2\<lparr>fpos := Suc (Suc (fpos g2))\<rparr>)
          \<and> noise_prob G' = noise_prob G \<and> forgiveness_prob G' = forgiveness_prob G)
     \<and> (unit_draws g2 \<and> 1 \<le> noise_prob G \<longrightarrow>
          (\<exists>G' g'. play_round G r g
             = Inr ((invert m1, invert m2, PAYOFFS (invert m1, invert m2)), G', g')))
     \<and> (unit_draws g2 \<and> noise_prob G \<le> 0 \<longrightarrow>
          (\<exists>G' g'. play_round G r g = Inr ((m1, m2, PAYOFFS (m1, m2)), G', g')))"
proof -
  have run: "\<exists>G'. play_round G r g =
            Inr (((if floats g2 (fpos g2) < noise_prob G then invert m1 else m1),
                  (if floats g2 (Suc (fpos g2)) < noise_prob G then invert m2 else m2),
                  PAYOFFS ((if floats g2 (fpos g2) < noise_prob G then invert m1 else m1),
                           (if floats g2 (Suc (fpos g2)) < noise_prob G then invert m2 else m2))),
                 G', g2\<lparr>fpos := Suc (Suc (fpos g2))\<rparr>)
          \<and> noise_prob G' = noise_prob G \<and> forgiveness_prob G' = forgiveness_prob G"
    by (simp add: play_round_def s1 s2 random_def Let_def split_beta)
  have hi: "unit_draws g2 \<Longrightarrow> 1 \<le> noise_prob G \<Longrightarrow> floats g2 i < noise_prob G" for i
    unfolding unit_draws_def by (meson less_le_trans)
  have lo: "unit_draws g2 \<Longrightarrow> noise_prob G \<le> 0 \<Longrightarrow> \<not> floats g2 i < noise_prob G" for i
    unfolding unit_draws_def by (meson not_less order_trans)
  have flip: "unit_draws g2 \<and> 1 \<le> noise_prob G \<longrightarrow>
          (\<exists>G' g'. play_round G r g
             = Inr ((invert m1, invert m2, PAYOFFS (invert m1, invert m2)), G', g'))"
    using hi by (simp add: play_round_def s1 s2 random_def Let_def split_beta)
  have keep: "unit_draws g2 \<and> noise_prob G \<le> 0 \<longrightarrow>
          (\<exists>G' g'. play_round G r g = Inr ((m1, m2, PAYOFFS (m1, m2)), G', g'))"
    using lo by (simp add: play_round_def s1 s2 random_def Let_def split_beta)
  show ?thesis
    using run flip keep by (simp add: Game_init_def)
qed

text \<open>Always Cooperate against Always Defect with a noise probability of 2 and a forgiveness probability of -1.\<close>

theorem probabilities_used_as_given_witness:
  "noise_prob (Game_init BUILT_IN_STRATEGIES_META ''cooperate'' ''defect'' 1 2 (- 1)) = 2
   \<and> forgiveness_prob (Game_init BUILT_IN_STRATEGIES_META ''cooperate'' ''defect'' 1 2 (- 1)) = - 1
   \<and> (\<exists>G'. play_round (Game_init BUILT_IN_STRATEGIES_META ''cooperate'' ''defect'' 1 2 (- 1))
          0 half_rng = Inr ((D, C, 5, 0), G', half_rng\<lparr>fpos := Suc (Suc 0)\<rparr>)
        \<and> noise_prob G' = 2 \<and> forgiveness_prob G' = - 1)"
proof -
  let ?G = "Game_init BUILT_IN_STRATEGIES_META ''cooperate'' ''defect'' 1 2 (- 1)"
  have s1: "strategy1_func ?G (history1 ?G) (history2 ?G) 0 (forgiveness_prob ?G) half_rng
      = Inr (C, half_rng)"
    by (simp add: Game_init_def builtin_lookup builtin_def always_cooperate_def)
  have s2: "strategy2_func ?G (history2 ?G) (history1 ?G) 0 (forgiveness_prob ?G) half_rng
      = Inr (D, half_rng)"
    by (simp add: Game_init_def builtin_lookup builtin_def always_defect_def)
  have n: "noise_prob ?G = 2" "forgiveness_prob ?G = - 1" "floats half_rng i = 1 / 2"
    "fpos half_rng = 0" for i
    by (simp_all add: Game_init_def half_rng_def)
  from probabilities_used_as_given[OF s1 s2, of BUILT_IN_STRATEGIES_META "''cooperate''" "''defect''" 1 2 "- 1"]
  show ?thesis
    by (simp add: n invert_def)
qed

text \<open>
  Against the claim as stated: a two-round match of Always Cooperate against itself with
  the noise probability 2 and the forgiveness probability -1 is not refused; it runs,
  every move is inverted, and the game still holds the two values.
\<close>

theorem out_of_range_counterexample:
  "\<not> (0 \<le> (2::real) \<and> (2::real) \<le> 1)
   \<and> (\<exists>G g'. run_game (Game_init BUILT_IN_STRATEGIES_META ''cooperate'' ''cooperate'' 2 2 (- 1))
          half_rng = Inr ((2, 2, ''DD'', ''DD''), G, g')
        \<and> noise_prob G = 2 \<and> forgiveness_prob G = - 1)"
  by (simp add: builtin_lookup run_game_def Game_init_def range_literals play_round_def
      always_cooperate_def builtin_def random_def half_rng_def invert_def move_char_def)

section \<open>Grudger\<close>

text \<open>
  C8, as the code has it. Once the opponent has defected, Grudger defects; the forgiveness
  override is tried only when the opponent's most recent move was a defection (one draw,
  Cooperate when it is below the forgiveness probability), and when the most recent move
  was a cooperation Grudger defects without drawing.
\<close>

theorem grudger_after_defection:
  assumes "D \<in> set opponent_history"
  shows "grudger my_history opponent_history round_number fp g =
     (if last opponent_history = D then
        Inr ((if floats g (fpos g) < fp then C else D), g\<lparr>fpos := Suc (fpos g)\<rparr>)
      else Inr (D, g))"
  using assms by (simp add: grudger_def random_def)

theorem grudger_after_defection_witness:
  "D \<in> set [C, D]
   \<and> grudger [C, C] [C, D] 2 1 half_rng = Inr (C, half_rng\<lparr>fpos := Suc (fpos half_rng)\<rparr>)"
proof -
  have h: "D \<in> set [C, D]" by simp
  from grudger_after_defection[OF h, of "[C, C]" 2 1 half_rng] h
  show ?thesis by (simp add: half_rng_def)
qed

text \<open>
  Against the claim as stated: the opponent defected and then cooperated, the forgiveness
  probability is 1 and the next draw, one half, is below it; Grudger still defects, and
  the random source is untouched.
\<close>

theorem grudger_counterexample:
  "D \<in> set [D, C] \<and> floats half_rng (fpos half_rng) < 1
   \<and> grudger [C, D] [D, C] 2 1 half_rng = Inr (D, half_rng)"
  by (simp add: grudger_def half_rng_def)

section \<open>Decisions of compiled rule sets\<close>

text \<open>
  C2, at the input where the code departs from it. The rule set gives a target for
  "opponent's last move was C" only, the opponent's only move so far is D, so the
  last-move rule does not match; the cooperation rate, 0, is below 50, so the
  cooperation-rate rule matches and its move is D. The decision function returns the
  default move C: the \<^verbatim>\<open>elif\<close> of the cooperation-rate rule is not reached once the
  last-move rule is present and the history is non-empty.
\<close>

theorem rule_priority_shadowing:
  "\<not> opp_last_move_matches c_only_rules [D]
   \<and> opp_coop_lt_matches exact_pct c_only_rules [D]
   \<and> map_option rule_move (opp_coop_lt c_only_rules) = Some D
   \<and> create_custom_strategy_function exact_pct c_only_rules [C] [D] 1 0 half_rng
       = Inr (C, half_rng)"
  by (simp add: c_only_rules_def opp_last_move_matches_def opp_coop_lt_matches_def exact_pct_def
      create_custom_strategy_function_def custom_strategy_logic_def)

text \<open>
  C3, as the code has it. Compiling a rule set without a default move does not fail: the
  decision function is the one of the same rule set with Cooperate as its default, and
  the loader stores it in the registry under its id.
\<close>

theorem missing_default_is_cooperate:
  assumes "default_move rs = None"
  shows "create_custom_strategy_function pct rs
           = create_custom_strategy_function pct (rs\<lparr>default_move := Some C\<rparr>)
     \<and> (\<exists>e. fst (load_custom_entry pct (STRATEGIES, CUSTOM_STRATEGIES)
                  (strat_id, \<lparr>def_name = Some n, def_rules = Some rs\<rparr>)) strat_id = Some e
           \<and> func e = create_custom_strategy_function pct rs)"
  using assms
  by (auto simp: create_custom_strategy_function_def custom_strategy_logic_def fun_eq_iff
      load_custom_entry_def Let_def)

theorem missing_default_is_cooperate_witness:
  "default_move no_default_rules = None
   \<and> create_custom_strategy_function exact_pct no_default_rules
       = create_custom_strategy_function exact_pct (no_default_rules\<lparr>default_move := Some C\<rparr>)
   \<and> (\<exists>e. fst (load_custom_entry exact_pct (BUILT_IN_STRATEGIES_META, Map.empty)
                (''custom_nodefault'', \<lparr>def_name = Some ''No Default'',
                                         def_rules = Some no_default_rules\<rparr>))
             ''custom_nodefault'' = Some e
          \<and> func e = create_custom_strategy_function exact_pct no_default_rules)"
proof -
  have h: "default_move no_default_rules = None"
    by (simp add: no_default_rules_def)
  from missing_default_is_cooperate[OF h, of exact_pct BUILT_IN_STRATEGIES_META Map.empty
      "''custom_nodefault''" "''No Default''"] h
  show ?thesis by blast
qed

text \<open>
  Against the claim as stated: a definition whose rule set has no default move is loaded,
  registered and usable; its decision function returns Cooperate.
\<close>

theorem missing_default_counterexample:
  "default_move no_default_rules = None
   \<and> (\<exists>e. fst (load_custom_strategies exact_pct
                 [(''custom_nodefault'', \<lparr>def_name = Some ''No Default'',
                                          def_rules = Some no_default_rules\<rparr>)])
             ''custom_nodefault'' = Some e
          \<and> func e [] [] 0 0 half_rng = Inr (C, half_rng)
          \<and> func e [D] [D] 1 0 half_rng = Inr (C, half_rng))"
  by (simp add: load_custom_strategies_def load_custom_entry_def no_default_rules_def
      create_custom_strategy_function_def custom_strategy_logic_def Let_def)

text \<open>
  C6. For a rule set whose default move is Defect and an input on which none of the
  three rules matches, the decision function returns Defect and leaves the random source
  untouched, whatever the forgiveness probability and the draws.
\<close>

theorem default_defect_never_forgiven:
  assumes "default_move rs = Some D"
    and "\<not> opp_last_move_matches rs opponent_history"
    and "\<not> opp_coop_lt_matches pct rs opponent_history"
    and "\<not> round_gt_matches rs round_number"
  shows "create_custom_strategy_function pct rs my_history opponent_history round_number fp g
           = Inr (D, g)"
proof -
  have a1: "opp_last_move rs \<noteq> None \<Longrightarrow> opponent_history \<noteq> [] \<Longrightarrow>
      last opponent_history = C \<Longrightarrow> on_C (the (opp_last_move rs)) = None"
    and a2: "opp_last_move rs \<noteq> None \<Longrightarrow> opponent_history \<noteq> [] \<Longrightarrow>
      last opponent_history = D \<Longrightarrow> on_D (the (opp_last_move rs)) = None"
    using assms(2) by (auto simp: opp_last_move_matches_def)
  have b: "opp_coop_lt rs \<noteq> None \<Longrightarrow> opponent_history \<noteq> [] \<Longrightarrow>
      \<not> pct (count_list opponent_history C) (length opponent_history)
          < real_of_int (rule_value (the (opp_coop_lt rs)))"
    using assms(3) by (auto simp: opp_coop_lt_matches_def)
  have c: "round_gt rs \<noteq> None \<Longrightarrow> \<not> round_number > rule_value (the (round_gt rs))"
    using assms(4) by (auto simp: round_gt_matches_def)
  have sel: "(if opp_last_move rs \<noteq> None \<and> opponent_history \<noteq> [] then
               (let olm = the (opp_last_move rs);
                    last_opp_move = last opponent_history
                in
                if last_opp_move = C \<and> on_C olm \<noteq> None then
                  (the (on_C olm), the (on_C olm) = D)
                else if last_opp_move = D \<and> on_D olm \<noteq> None then
                  (the (on_D olm), the (on_D olm) = D)
                else (D, False))
             else if opp_coop_lt rs \<noteq> None \<and> opponent_history \<noteq> [] then
               (let r = the (opp_coop_lt rs);
                    coop_count = count_list opponent_history C;
                    total_moves = length opponent_history;
                    coop_rate = (if total_moves > 0 then pct coop_count total_moves else 100)
                in
                if coop_rate < real_of_int (rule_value r) then (rule_move r, rule_move r = D)
                else (D, False))
             else if round_gt rs \<noteq> None
                     \<and> round_number > rule_value (the (round_gt rs)) then
               (rule_move (the (round_gt rs)), rule_move (the (round_gt rs)) = D)
             else (D, False)) = (D, False)"
  proof (cases "opp_last_move rs \<noteq> None \<and> opponent_history \<noteq> []")
    case True
    then show ?thesis
      using a1 a2 by (cases "last opponent_history") (simp_all add: Let_def)
  next
    case first: False
    show ?thesis
    proof (cases "opp_coop_lt rs \<noteq> None \<and> opponent_history \<noteq> []")
      case True
      then show ?thesis using first b by (simp add: Let_def)
    next
      case False
      then show ?thesis using first c by auto
    qed
  qed
  show ?thesis
    unfolding create_custom_strategy_function_def custom_strategy_logic_def
    by (simp only: assms(1) option.case Let_def[of D] sel) simp
qed

theorem default_defect_never_forgiven_witness:
  "default_move defect_default_rules = Some D
   \<and> \<not> opp_last_move_matches defect_default_rules [C, D]
   \<and> \<not> opp_coop_lt_matches exact_pct defect_default_rules [C, D]
   \<and> \<not> round_gt_matches defect_default_rules 2
   \<and> create_custom_strategy_function exact_pct defect_default_rules [C, C] [C, D] 2 1 half_rng
       = Inr (D, half_rng)"
proof -
  have h1: "default_move defect_default_rules = Some D"
    by (simp add: defect_default_rules_def)
  have h2: "\<not> opp_last_move_matches defect_default_rules [C, D]"
    by (simp add: defect_default_rules_def opp_last_move_matches_def)
  have h3: "\<not> opp_coop_lt_matches exact_pct defect_default_rules [C, D]"
    by (simp add: defect_default_rules_def opp_coop_lt_matches_def exact_pct_def)
  have h4: "\<not> round_gt_matches defect_default_rules 2"
    by (simp add: defect_default_rules_def round_gt_matches_def)
  from default_defect_never_forgiven[OF h1 h2 h3 h4] h1 h2 h3 h4 show ?thesis by blast
qed

section \<open>The elimination bracket\<close>










lemma bracket_rounds_small: "n \<le> 1 \<Longrightarrow> bracket_rounds n = 0"
  by (simp add: bracket_rounds.simps)

lemma bracket_rounds_step: "1 < n \<Longrightarrow> bracket_rounds n = Suc (bracket_rounds ((n + 1) div 2))"
  by (subst bracket_rounds.simps) simp



text \<open>The number of bracket rounds is the least \<open>r\<close> with \<open>n \<le> 2 ^ r\<close>.\<close>

lemma bracket_rounds_upper: "n \<le> 2 ^ bracket_rounds n \<or> n = 0"
proof (induction n rule: bracket_rounds.induct)
  case (1 n)
  show ?case
  proof (cases "n \<le> 1")
    case True
    then show ?thesis by (cases n) (auto simp: bracket_rounds_small)
  next
    case False
    then have big: "1 < n" by simp
    from "1.IH"[OF False] big have "(n + 1) div 2 \<le> 2 ^ bracket_rounds ((n + 1) div 2)"
      by auto
    then have "n \<le> 2 * 2 ^ bracket_rounds ((n + 1) div 2)" by arith
    then show ?thesis by (simp add: bracket_rounds_step[OF big])
  qed
qed

lemma bracket_rounds_lower: "1 < n \<Longrightarrow> 2 ^ (bracket_rounds n - 1) < n"
proof (induction n rule: bracket_rounds.induct)
  case (1 n)
  then have big: "1 < n" by simp
  show ?case
  proof (cases "1 < (n + 1) div 2")
    case True
    from "1.IH" big True have ih: "2 ^ (bracket_rounds ((n + 1) div 2) - 1) < (n + 1) div 2"
      by simp
    from True have "bracket_rounds ((n + 1) div 2) \<noteq> 0"
      by (simp add: bracket_rounds_step)
    then obtain k where k: "bracket_rounds ((n + 1) div 2) = Suc k"
      by (cases "bracket_rounds ((n + 1) div 2)") auto
    from ih k have "2 ^ k < (n + 1) div 2" by simp
    then have "2 * 2 ^ k < n" by arith
    moreover have "bracket_rounds n = Suc (Suc k)"
      unfolding bracket_rounds_step[OF big] k ..
    ultimately show ?thesis by simp
  next
    case False
    then have "bracket_rounds ((n + 1) div 2) = 0" by (simp add: bracket_rounds_small)
    then show ?thesis using big by (simp add: bracket_rounds_step[OF big])
  qed
qed













section \<open>The group ranking\<close>

lemma sorted_wrt_rev_keys:
  "sorted_wrt (\<lambda>a b. key b \<le> key a) (rev (sort_key key xs))"
proof -
  have "sorted (map key (sort_key key xs))" by simp
  then have "sorted_wrt (\<lambda>a b. key a \<le> key b) (sort_key key xs)"
    by (simp add: sorted_map)
  then show ?thesis by (simp add: sorted_wrt_rev)
qed

lemma tie_keys:
  "group_key tie_scores BUILT_IN_STRATEGIES_META ''cooperate'' = (30, ''Always Cooperate'')"
  "group_key tie_scores BUILT_IN_STRATEGIES_META ''tit_for_tat'' = (30, ''Tit for Tat (TFT)'')"
  by (simp_all add: group_key_def tie_scores_def builtin_lookup builtin_def)

text \<open>
  C5, as the code has it. The ranking of a group is a rearrangement of the group in which
  a participant comes before another only if its in-group score is higher, or the scores
  are equal and its display name is lexicographically greater or equal: the order is
  descending by score and, among equal scores, descending by name. The qualifiers are
  the first \<open>num_qualifiers\<close> of this ranking.
\<close>

theorem group_ranking_descending:
  "mset (group_ranked sc S grp) = mset grp
   \<and> sorted_wrt (\<lambda>a b. fst (group_key sc S a) > fst (group_key sc S b)
         \<or> (fst (group_key sc S a) = fst (group_key sc S b)
             \<and> snd (group_key sc S a) \<ge> snd (group_key sc S b)))
       (group_ranked sc S grp)
   \<and> group_qualifiers sc S q grp = take q (group_ranked sc S grp)"
proof -
  have rel: "(\<lambda>a b. group_key sc S b \<le> group_key sc S a)
       = (\<lambda>a b. fst (group_key sc S a) > fst (group_key sc S b)
         \<or> (fst (group_key sc S a) = fst (group_key sc S b)
             \<and> snd (group_key sc S a) \<ge> snd (group_key sc S b)))"
    by (auto simp: fun_eq_iff less_eq_prod_def)
  have "sorted_wrt (\<lambda>a b. group_key sc S b \<le> group_key sc S a) (group_ranked sc S grp)"
    unfolding group_ranked_def py_sorted_reverse_def by (rule sorted_wrt_rev_keys)
  moreover have "mset (group_ranked sc S grp) = mset grp"
    by (simp add: group_ranked_def py_sorted_reverse_def)
  ultimately show ?thesis
    unfolding rel by (simp add: group_qualifiers_def)
qed

text \<open>
  Against the claim as stated: Always Cooperate and Tit for Tat end a group with 30
  points each; "Always Cooperate" is the lexicographically smaller name, yet Tit for Tat
  is ranked first and is the one qualifier.
\<close>

theorem group_tie_counterexample:
  "group_ranked tie_scores BUILT_IN_STRATEGIES_META [''cooperate'', ''tit_for_tat'']
     = [''tit_for_tat'', ''cooperate'']
   \<and> fst (group_key tie_scores BUILT_IN_STRATEGIES_META ''tit_for_tat'')
     = fst (group_key tie_scores BUILT_IN_STRATEGIES_META ''cooperate'')
   \<and> snd (group_key tie_scores BUILT_IN_STRATEGIES_META ''cooperate'')
     < snd (group_key tie_scores BUILT_IN_STRATEGIES_META ''tit_for_tat'')
   \<and> group_qualifiers tie_scores BUILT_IN_STRATEGIES_META 1 [''cooperate'', ''tit_for_tat'']
     = [''tit_for_tat'']"
  by (simp add: group_qualifiers_def group_ranked_def py_sorted_reverse_def tie_keys
      less_eq_prod_def less_char_def less_eq_char_def)

end
